theory Spec2Isabelle
  imports Main "HOL-Library.Word"
begin

section \<open>Single-precision floats of the target\<close>

text \<open>
  The sketch computes with C \<^verbatim>\<open>float\<close> (IEEE-754 binary32, round to nearest, ties to
  even, every operation rounded on its own) and with \<^verbatim>\<open>unsigned long\<close> (32 bits on the
  ESP32).  A float is its 32-bit pattern: bit 31 is the sign, the low 31 bits are the
  magnitude (8 exponent bits, 23 fraction bits).  Among the patterns that are not NaN the
  magnitude orders the absolute values, and every value is a whole number of units of
  \<open>2 ^ -149\<close> (the smallest subnormal); an infinity counts as \<open>2 ^ 128\<close>, which no finite
  float reaches.  Arithmetic is exact integer arithmetic on those units followed by one
  rounding.  Every NaN an operation produces is the default quiet NaN.
\<close>

type_synonym float = "32 word"
type_synonym u32 = "32 word"
type_synonym long = "32 word"

definition f_sign :: "float \<Rightarrow> bool" where
  "f_sign x = (2 ^ 31 \<le> unat x)"

definition f_mag :: "float \<Rightarrow> nat" where
  "f_mag x = unat x mod 2 ^ 31"

definition inf_mag :: nat where
  "inf_mag = 255 * 2 ^ 23"

definition isnan :: "float \<Rightarrow> bool" where
  "isnan x = (inf_mag < f_mag x)"

definition isinf :: "float \<Rightarrow> bool" where
  "isinf x = (f_mag x = inf_mag)"

definition iszero :: "float \<Rightarrow> bool" where
  "iszero x = (f_mag x = 0)"

text \<open>The absolute value, in units of \<open>2 ^ -149\<close>, of the float with magnitude bits \<open>m\<close>.\<close>

definition mag_units :: "nat \<Rightarrow> nat" where
  "mag_units m =
     (let e = m div 2 ^ 23; f = m mod 2 ^ 23
      in if e = 0 then f else (2 ^ 23 + f) * 2 ^ (e - 1))"

definition f_int :: "float \<Rightarrow> int" where
  "f_int x = (if f_sign x then - int (mag_units (f_mag x)) else int (mag_units (f_mag x)))"

definition mk_float :: "bool \<Rightarrow> nat \<Rightarrow> float" where
  "mk_float s m = word_of_nat (if s then 2 ^ 31 + m else m)"

definition qnan :: float where
  "qnan = mk_float False (inf_mag + 2 ^ 22)"

fun bitlen_nat :: "nat \<Rightarrow> nat" where
  "bitlen_nat n = (if n = 0 then 0 else Suc (bitlen_nat (n div 2)))"

declare bitlen_nat.simps [simp del]

text \<open>\<open>n / d\<close> rounded to the nearest natural number, a tie going to the even one.\<close>

definition rne_div :: "nat \<Rightarrow> nat \<Rightarrow> nat" where
  "rne_div n d =
     (let q = n div d; r = n mod d
      in if 2 * r < d then q
         else if d < 2 * r then q + 1
         else if even q then q else q + 1)"

text \<open>
  The magnitude bits of the float nearest to \<open>n / d\<close> units.  Below \<open>2 ^ 24\<close> units the
  spacing of the floats is one unit and the rounded count is the magnitude itself; above,
  the quotient is rounded to 24 significant bits at shift \<open>sh\<close>, and a carry into the next
  binade is the carry of the addition.  What rounds to \<open>2 ^ 128\<close> or more is infinity.
\<close>

definition round_mag :: "nat \<Rightarrow> nat \<Rightarrow> nat" where
  "round_mag n d =
     (let sh = bitlen_nat (n div d) - 24
      in min (sh * 2 ^ 23 + rne_div n (d * 2 ^ sh)) inf_mag)"

definition fneg :: "float \<Rightarrow> float" where
  "fneg x = mk_float (\<not> f_sign x) (f_mag x)"

definition fabsf :: "float \<Rightarrow> float" where
  "fabsf x = mk_float False (f_mag x)"

definition fadd :: "float \<Rightarrow> float \<Rightarrow> float" where
  "fadd a b =
     (if isnan a \<or> isnan b then qnan
      else if isinf a \<and> isinf b \<and> f_sign a \<noteq> f_sign b then qnan
      else if isinf a then a
      else if isinf b then b
      else let s = f_int a + f_int b
           in if s = 0 then mk_float (f_sign a \<and> f_sign b) 0
              else mk_float (s < 0) (round_mag (nat \<bar>s\<bar>) 1))"

definition fsub :: "float \<Rightarrow> float \<Rightarrow> float" where
  "fsub a b = fadd a (fneg b)"

definition fmul :: "float \<Rightarrow> float \<Rightarrow> float" where
  "fmul a b =
     (if isnan a \<or> isnan b then qnan
      else if (isinf a \<and> iszero b) \<or> (iszero a \<and> isinf b) then qnan
      else if isinf a \<or> isinf b then mk_float (f_sign a \<noteq> f_sign b) inf_mag
      else mk_float (f_sign a \<noteq> f_sign b)
             (round_mag (mag_units (f_mag a) * mag_units (f_mag b)) (2 ^ 149)))"

definition fdiv :: "float \<Rightarrow> float \<Rightarrow> float" where
  "fdiv a b =
     (if isnan a \<or> isnan b then qnan
      else if (iszero a \<and> iszero b) \<or> (isinf a \<and> isinf b) then qnan
      else if isinf a \<or> iszero b then mk_float (f_sign a \<noteq> f_sign b) inf_mag
      else if isinf b then mk_float (f_sign a \<noteq> f_sign b) 0
      else mk_float (f_sign a \<noteq> f_sign b)
             (round_mag (mag_units (f_mag a) * 2 ^ 149) (mag_units (f_mag b))))"

text \<open>
  \<^verbatim>\<open>roundf\<close> of the C library: to the nearest whole number, a half going away from zero,
  the sign kept (also on a zero result).  From \<open>2 ^ 23\<close> on every float is whole.
\<close>

definition roundf :: "float \<Rightarrow> float" where
  "roundf x =
     (if isnan x then qnan
      else if 150 * 2 ^ 23 \<le> f_mag x then x
      else mk_float (f_sign x)
             (round_mag ((2 * mag_units (f_mag x) + 2 ^ 149) div 2 ^ 150 * 2 ^ 149) 1))"

text \<open>The conversion of an \<^verbatim>\<open>unsigned long\<close> to \<^verbatim>\<open>float\<close>, and a decimal literal \<open>n / d\<close>.\<close>

definition float_of_u32 :: "u32 \<Rightarrow> float" where
  "float_of_u32 n = mk_float False (round_mag (unat n * 2 ^ 149) 1)"

definition float_lit :: "nat \<Rightarrow> nat \<Rightarrow> float" where
  "float_lit n d = mk_float False (round_mag (n * 2 ^ 149) d)"

text \<open>The comparison operators of C: every comparison with a NaN is false, and \<open>-0 == +0\<close>.\<close>

definition flt :: "float \<Rightarrow> float \<Rightarrow> bool" where
  "flt a b = (\<not> isnan a \<and> \<not> isnan b \<and> f_int a < f_int b)"

definition fle :: "float \<Rightarrow> float \<Rightarrow> bool" where
  "fle a b = (\<not> isnan a \<and> \<not> isnan b \<and> f_int a \<le> f_int b)"

definition fgt :: "float \<Rightarrow> float \<Rightarrow> bool" where
  "fgt a b = flt b a"

definition fge :: "float \<Rightarrow> float \<Rightarrow> bool" where
  "fge a b = fle b a"

definition feq :: "float \<Rightarrow> float \<Rightarrow> bool" where
  "feq a b = (\<not> isnan a \<and> \<not> isnan b \<and> f_int a = f_int b)"

definition fzero :: float where
  "fzero = float_lit 0 1"


section \<open>The sketch\<close>

subsection \<open>Tuning knobs\<close>

definition emaBig :: float where
  "emaBig = float_lit 4 10"

definition emaMed :: float where
  "emaMed = float_lit 7 10"

definition emaSma :: float where
  "emaSma = float_lit 95 100"

definition threshold :: float where
  "threshold = float_lit 8 100"

definition zClampPos :: float where
  "zClampPos = float_lit 2 10"

definition zClampNeg :: float where
  "zClampNeg = float_lit 3 10"

definition timerStartG :: float where
  "timerStartG = float_lit 2 1"

definition minFlowT :: u32 where
  "minFlowT = 800"

definition minFlowG :: float where
  "minFlowG = float_lit 2 10"

subsection \<open>State and inputs of one pass of \<^verbatim>\<open>loop()\<close>\<close>

text \<open>
  The state is what outlives a pass: the \<^verbatim>\<open>static\<close> locals of \<^verbatim>\<open>loop()\<close>, the
  \<^verbatim>\<open>static\<close> local \<^verbatim>\<open>shown_g\<close> of \<^verbatim>\<open>hysteresis\<close>, and the globals \<^verbatim>\<open>tStart\<close> and
  \<^verbatim>\<open>flowStopTimer\<close>.  \<^verbatim>\<open>val\<close> and \<^verbatim>\<open>grams\<close> are plain locals, set to 0 at the top of
  every pass, and are not part of it.
\<close>

record state =
  gFilt :: float
  prevGFilt :: float
  running :: bool
  time :: float
  startOnce :: bool
  shown_g :: float
  tStart :: u32
  flowStopTimer :: u32

datatype level = LOW | HIGH

text \<open>
  What the environment answers during one pass: \<open>button k\<close> is the \<open>k\<close>-th
  \<^verbatim>\<open>digitalRead(ZERO_BUTTON_PIN)\<close> of the pass (from 0), the three sensor answers are those
  of \<^verbatim>\<open>scale.is_ready()\<close>, \<^verbatim>\<open>scale.get_value(1)\<close> and \<^verbatim>\<open>scale.get_units(sma)\<close>, and
  each place that calls \<^verbatim>\<open>millis()\<close> has its own reading (at most one of the two calls in
  the flow-stop block runs in a pass).
\<close>

record inputs =
  button :: "nat \<Rightarrow> level"
  is_ready :: bool
  get_value :: long
  get_units :: float
  millis_stall :: u32
  millis_start :: u32
  millis_time :: u32

text \<open>What a pass hands to its collaborators: the four numbers drawn, and whether it asked
  for \<^verbatim>\<open>scale.tare()\<close> and the 150 ms beep.\<close>

record outputs =
  d_val :: long
  d_grams :: float
  d_gFilt :: float
  d_time :: float
  tared :: bool

definition init_state :: state where
  "init_state = \<lparr>gFilt = fzero, prevGFilt = fzero, running = False, time = fzero,
     startOnce = True, shown_g = fzero, tStart = 0, flowStopTimer = 0\<rparr>"

subsection \<open>The helper functions\<close>

definition quantize :: "float \<Rightarrow> float" where
  "quantize g = fdiv (roundf (fmul g (float_lit 10 1))) (float_lit 10 1)"

definition hysteresis :: "float \<Rightarrow> state \<Rightarrow> float \<times> state" where
  "hysteresis read_g s =
     (let s' = (if fge (fabsf (fsub read_g (shown_g s))) threshold
                then s\<lparr>shown_g := read_g\<rparr> else s)
      in (shown_g s', s'))"

definition varZeroClamp :: "float \<Rightarrow> float" where
  "varZeroClamp g =
     (if flt g fzero \<and> flt (fabsf g) zClampNeg then fzero
      else if fgt g fzero \<and> flt (fabsf g) zClampPos then fzero
      else g)"

subsection \<open>\<^verbatim>\<open>loop()\<close>, block by block\<close>

text \<open>
  Lines 122-139.  The wait for the release of the button reads the pin until it is HIGH;
  a button that is never released keeps the pass in that loop, which is the value \<open>None\<close>.
\<close>

partial_function (option) wait_release :: "(nat \<Rightarrow> level) \<Rightarrow> nat \<Rightarrow> nat option" where
  "wait_release pin k = (if pin k = LOW then wait_release pin (Suc k) else Some k)"

declare wait_release.simps [code]

definition tare_reset :: "state \<Rightarrow> state" where
  "tare_reset s =
     s\<lparr>gFilt := fzero, running := False, time := fzero, flowStopTimer := 0, startOnce := True\<rparr>"

definition loop_tare :: "(nat \<Rightarrow> level) \<Rightarrow> state \<Rightarrow> (bool \<times> state) option" where
  "loop_tare pin s =
     (if pin 0 = LOW then
        (if pin 1 = LOW then
           (case wait_release pin 2 of
              None \<Rightarrow> None
            | Some k \<Rightarrow> Some (True, tare_reset s))
         else Some (False, s))
      else Some (False, s))"

text \<open>Lines 111-112 and 141-144: the two locals start at 0 and are overwritten only when
  the sensor is ready.\<close>

definition loop_read :: "inputs \<Rightarrow> long \<times> float" where
  "loop_read i = (if is_ready i then (get_value i, get_units i) else (0, fzero))"

text \<open>Lines 149-161: the adaptive EMA, from the reading \<open>grams\<close> and the stored \<open>gFilt\<close>.\<close>

definition loop_ema :: "float \<Rightarrow> float \<Rightarrow> float" where
  "loop_ema grams g =
     (let err = fabsf (fsub grams g)
      in if fgt err (float_lit 1 1) then grams
         else let ema = (if fgt err (float_lit 3 10) then emaBig
                         else if fgt err (float_lit 1 10) then emaMed
                         else emaSma)
              in fadd (fmul ema g) (fmul (fsub (float_lit 1 1) ema) grams))"

text \<open>Lines 149-165: \<^verbatim>\<open>gFilt\<close> is overwritten four times in a row.\<close>

definition loop_filter :: "float \<Rightarrow> state \<Rightarrow> state" where
  "loop_filter grams s =
     (let s1 = s\<lparr>gFilt := loop_ema grams (gFilt s)\<rparr>;
          (h, s2) = hysteresis (gFilt s1) s1;
          s3 = s2\<lparr>gFilt := h\<rparr>;
          s4 = s3\<lparr>gFilt := varZeroClamp (gFilt s3)\<rparr>
      in s4\<lparr>gFilt := quantize (gFilt s4)\<rparr>)"

text \<open>Lines 167-181: the flow-stop rule; \<open>now\<close> is the reading of the one \<^verbatim>\<open>millis()\<close> call
  that runs.  The subtraction and the comparison are those of \<^verbatim>\<open>unsigned long\<close>.\<close>

definition loop_flow :: "u32 \<Rightarrow> state \<Rightarrow> state" where
  "loop_flow now s =
     (if running s then
        (let deltaG = fsub (gFilt s) (prevGFilt s)
         in if flt deltaG minFlowG then
              (if flowStopTimer s = 0 then s\<lparr>flowStopTimer := now\<rparr>
               else if now - flowStopTimer s > minFlowT
                    then s\<lparr>running := False, startOnce := False, flowStopTimer := 0\<rparr>
                    else s)
            else s\<lparr>flowStopTimer := 0\<rparr>)
      else s)"

text \<open>Lines 186-194: the start rule and the elapsed time.\<close>

definition loop_timer :: "u32 \<Rightarrow> u32 \<Rightarrow> state \<Rightarrow> state" where
  "loop_timer now_start now_time s =
     (let s1 = (if fgt (gFilt s) timerStartG \<and> \<not> running s
                then s\<lparr>running := True, tStart := now_start, flowStopTimer := 0\<rparr>
                else s)
      in if running s1 \<and> startOnce s1
         then s1\<lparr>time := fdiv (float_of_u32 (now_time - tStart s1)) (float_lit 1000 1)\<rparr>
         else s1)"

text \<open>One pass of \<^verbatim>\<open>loop()\<close>.\<close>

definition loop :: "inputs \<Rightarrow> state \<Rightarrow> (state \<times> outputs) option" where
  "loop i s =
     (case loop_tare (button i) s of
        None \<Rightarrow> None
      | Some (t, s1) \<Rightarrow>
          (let (val, grams) = loop_read i;
               s2 = loop_filter grams s1;
               s3 = loop_flow (millis_stall i) s2;
               s4 = s3\<lparr>prevGFilt := gFilt s3\<rparr>;
               s5 = loop_timer (millis_start i) (millis_time i) s4
           in Some (s5, \<lparr>d_val = val, d_grams = grams, d_gFilt = gFilt s5,
                         d_time = time s5, tared = t\<rparr>)))"


section \<open>Concrete runs\<close>

text \<open>
  Inputs and states of the runs that the theorems below are instantiated at: a button that
  is not touched, a button held for the first \<open>n\<close> readings, the scale after a cup of 10 g
  was put on it, a brew that stands at 2.6 g with the flow-stop clock started at 1000 ms,
  and a state in the middle of a brew.
\<close>

definition released :: "nat \<Rightarrow> level" where
  "released k = HIGH"

definition pressed_until :: "nat \<Rightarrow> nat \<Rightarrow> level" where
  "pressed_until n k = (if k < n then LOW else HIGH)"

definition busy_state :: state where
  "busy_state = \<lparr>gFilt = float_lit 186 10, prevGFilt = float_lit 185 10, running = True,
     time = float_lit 12 1, startOnce = False, shown_g = float_lit 186 10, tStart = 5000,
     flowStopTimer = 16500\<rparr>"

definition pour_state :: state where
  "pour_state = \<lparr>gFilt = float_lit 26 10, prevGFilt = float_lit 26 10, running = True,
     time = float_lit 5 10, startOnce = True, shown_g = float_lit 26 10, tStart = 500,
     flowStopTimer = 1000\<rparr>"

definition placed_tick :: inputs where
  "placed_tick = \<lparr>button = released, is_ready = True, get_value = 7340,
     get_units = float_lit 10 1, millis_stall = 1000, millis_start = 1001, millis_time = 1002\<rparr>"

definition placed_state :: state where
  "placed_state = \<lparr>gFilt = float_lit 10 1, prevGFilt = float_lit 10 1, running = True,
     time = 0x3A83126F, startOnce = True, shown_g = float_lit 10 1, tStart = 1001,
     flowStopTimer = 0\<rparr>"

definition idle_tick :: inputs where
  "idle_tick = \<lparr>button = released, is_ready = False, get_value = 7341,
     get_units = float_lit 10 1, millis_stall = 1040, millis_start = 1041, millis_time = 1042\<rparr>"

definition pouring_tick :: inputs where
  "pouring_tick = \<lparr>button = released, is_ready = True, get_value = 7560,
     get_units = float_lit 103 10, millis_stall = 1040, millis_start = 1041, millis_time = 1042\<rparr>"

definition stall_tick :: inputs where
  "stall_tick = \<lparr>button = released, is_ready = True, get_value = 1908,
     get_units = float_lit 26 10, millis_stall = 1800, millis_start = 1801, millis_time = 1802\<rparr>"


section \<open>Facts about the float operations\<close>

subsection \<open>Sign and magnitude\<close>

lemma unat_mk_float: "m < 2 ^ 31 \<Longrightarrow> unat (mk_float s m) = (if s then 2 ^ 31 + m else m)"
  by (simp add: mk_float_def unat_of_nat)

lemma f_mag_less: "f_mag x < 2 ^ 31"
  by (simp add: f_mag_def)

lemma f_sign_mk_float: "m < 2 ^ 31 \<Longrightarrow> f_sign (mk_float s m) = s"
  by (simp add: f_sign_def unat_mk_float)

lemma f_mag_mk_float: "m < 2 ^ 31 \<Longrightarrow> f_mag (mk_float s m) = m"
  by (simp add: f_mag_def unat_mk_float)

lemma f_sign_mk_float_mag [simp]: "f_sign (mk_float s (f_mag x)) = s"
  using f_mag_less [of x] by (simp add: f_sign_def unat_mk_float)

lemma f_mag_mk_float_mag [simp]: "f_mag (mk_float s (f_mag x)) = f_mag x"
  using f_mag_less [of x] by (simp add: f_mag_mk_float)

lemma f_int_fabsf: "f_int (fabsf x) = \<bar>f_int x\<bar>"
  by (simp add: f_int_def fabsf_def)

lemma isnan_fabsf: "isnan (fabsf x) = isnan x"
  by (simp add: isnan_def fabsf_def)

lemma f_int_fneg: "f_int (fneg x) = - f_int x"
  by (simp add: f_int_def fneg_def)

lemma isnan_fneg: "isnan (fneg x) = isnan x"
  by (simp add: isnan_def fneg_def)

subsection \<open>The comparisons\<close>

lemma flt_not_fge: "flt a b \<Longrightarrow> \<not> fge a b"
  by (simp add: flt_def fge_def fle_def)

lemma fge_not_flt: "fge a b \<Longrightarrow> \<not> flt a b"
  by (simp add: flt_def fge_def fle_def)

lemma fle_not_fgt: "fle a b \<Longrightarrow> \<not> fgt a b"
  by (simp add: flt_def fgt_def fle_def)

lemma fle_flt_trans: "fle a b \<Longrightarrow> flt b c \<Longrightarrow> flt a c"
  by (simp add: flt_def fle_def)

subsection \<open>Rounding, checked from a quotient\<close>

text \<open>
  Evaluating \<open>round_mag\<close> from its definition divides numbers of some 300 bits.  Given the
  shift \<open>sh\<close> and the quotient \<open>q\<close>, one multiplication checks them instead.
\<close>

lemma bitlen_nat_bounds: "2 ^ k \<le> n \<Longrightarrow> n < 2 ^ Suc k \<Longrightarrow> bitlen_nat n = Suc k"
proof (induction k arbitrary: n)
  case 0
  then have "n = 1" by simp
  then show ?case by (simp add: bitlen_nat.simps)
next
  case (Suc k)
  then have "2 ^ k \<le> n div 2" "n div 2 < 2 ^ Suc k" by auto
  then have "bitlen_nat (n div 2) = Suc k" by (rule Suc.IH)
  moreover from Suc.prems have "n \<noteq> 0" by auto
  ultimately show ?case by (subst bitlen_nat.simps) simp
qed

lemma bitlen_nat_le: "n < 2 ^ k \<Longrightarrow> bitlen_nat n \<le> k"
proof (induction k arbitrary: n)
  case 0
  then show ?case by (simp add: bitlen_nat.simps)
next
  case (Suc k)
  then have "n div 2 < 2 ^ k" by auto
  then have "bitlen_nat (n div 2) \<le> k" by (rule Suc.IH)
  then show ?case by (subst bitlen_nat.simps) simp
qed

lemma round_mag_cert:
  assumes "d * 2 ^ sh = d'" "n - q * d' = r" "q * d' \<le> n" "r < d'"
    and "sh = 0 \<or> 2 ^ 23 \<le> q" "q < 2 ^ 24"
  shows "round_mag n d =
           min (sh * 2 ^ 23 +
                (if 2 * r < d' then q else if d' < 2 * r then q + 1
                 else if even q then q else q + 1)) inf_mag"
proof -
  have n: "n = q * d' + r" using assms(2,3) by simp
  have q: "n div d' = q" and r: "n mod d' = r"
    using assms(4) by (simp_all add: n)
  have "n div (d * 2 ^ sh) = q" using q by (simp add: assms(1))
  then have t: "(n div d) div 2 ^ sh = q" by (simp add: div_mult2_eq)
  have "bitlen_nat (n div d) - 24 = sh"
  proof (cases "sh = 0")
    case True
    with t assms(6) have "n div d < 2 ^ 24" by simp
    then have "bitlen_nat (n div d) \<le> 24" by (rule bitlen_nat_le)
    with True show ?thesis by simp
  next
    case False
    with assms(5) have q23: "2 ^ 23 \<le> q" by simp
    have "2 ^ (23 + sh) \<le> n div d"
    proof -
      have "2 ^ 23 * 2 ^ sh \<le> q * 2 ^ sh" using q23 by simp
      also have "\<dots> \<le> n div d" using t by (metis div_times_less_eq_dividend)
      finally show ?thesis by (simp add: power_add)
    qed
    moreover have "n div d < 2 ^ (24 + sh)"
    proof -
      have "n div d < (q + 1) * 2 ^ sh"
        using t by (metis Suc_eq_plus1 dividend_less_div_times mult.commute mult_Suc
            zero_less_numeral zero_less_power add.commute)
      also have "\<dots> \<le> 2 ^ 24 * 2 ^ sh" using assms(6) by simp
      finally show ?thesis by (simp add: power_add)
    qed
    ultimately have "bitlen_nat (n div d) = Suc (23 + sh)"
      by (intro bitlen_nat_bounds) simp_all
    then show ?thesis by simp
  qed
  then show ?thesis
    using q r assms(1) by (simp add: round_mag_def rne_div_def Let_def)
qed

lemma mag_units_ev:
  assumes "m div 2 ^ 23 = e" "m mod 2 ^ 23 = f"
  shows "mag_units m = (if e = 0 then f else (2 ^ 23 + f) * 2 ^ (e - 1))"
  using assms by (simp add: mag_units_def Let_def)

lemmas ev_cmp = mk_float_def inf_mag_def f_sign_def f_mag_def isnan_def f_int_def
  flt_def fle_def fgt_def fge_def feq_def mag_units_ev

lemmas ev0 = float_lit_def Let_def isinf_def iszero_def qnan_def fneg_def fabsf_def
  fadd_def fsub_def fmul_def fdiv_def roundf_def float_of_u32_def ev_cmp

lemmas knobs = fzero_def emaBig_def emaMed_def emaSma_def threshold_def zClampPos_def
  zClampNeg_def timerStartG_def minFlowG_def minFlowT_def

subsection \<open>The literals and operations of the concrete runs, evaluated\<close>

lemma lit_1: "float_lit 0 1 = 0"
  by (simp add: ev0 round_mag_cert [where sh = 0 and q = 0])

lemma lit_2: "float_lit 4 10 = 0x3ECCCCCD"
  by (simp add: ev0 round_mag_cert [where sh = 124 and q = 13421772])

lemma lit_3: "float_lit 7 10 = 0x3F333333"
  by (simp add: ev0 round_mag_cert [where sh = 125 and q = 11744051])

lemma lit_4: "float_lit 95 100 = 0x3F733333"
  by (simp add: ev0 round_mag_cert [where sh = 125 and q = 15938355])

lemma lit_5: "float_lit 8 100 = 0x3DA3D70A"
  by (simp add: ev0 round_mag_cert [where sh = 122 and q = 10737418])

lemma lit_6: "float_lit 2 10 = 0x3E4CCCCD"
  by (simp add: ev0 round_mag_cert [where sh = 123 and q = 13421772])

lemma lit_7: "float_lit 3 10 = 0x3E99999A"
  by (simp add: ev0 round_mag_cert [where sh = 124 and q = 10066329])

lemma lit_8: "float_lit 2 1 = 0x40000000"
  by (simp add: ev0 round_mag_cert [where sh = 127 and q = 8388608])

lemma lit_9: "float_lit 1 1 = 0x3F800000"
  by (simp add: ev0 round_mag_cert [where sh = 126 and q = 8388608])

lemma lit_10: "float_lit 1 10 = 0x3DCCCCCD"
  by (simp add: ev0 round_mag_cert [where sh = 122 and q = 13421772])

lemma lit_11: "float_lit 10 1 = 0x41200000"
  by (simp add: ev0 round_mag_cert [where sh = 129 and q = 10485760])

lemma lit_12: "float_lit 1000 1 = 0x447A0000"
  by (simp add: ev0 round_mag_cert [where sh = 135 and q = 16384000])

lemma lit_13: "float_lit 102 10 = 0x41233333"
  by (simp add: ev0 round_mag_cert [where sh = 129 and q = 10695475])

lemma lit_14: "float_lit 5 1 = 0x40A00000"
  by (simp add: ev0 round_mag_cert [where sh = 128 and q = 10485760])

lemma lit_15: "float_lit 5 10 = 0x3F000000"
  by (simp add: ev0 round_mag_cert [where sh = 125 and q = 8388608])

lemma lit_16: "float_lit 5 100 = 0x3D4CCCCD"
  by (simp add: ev0 round_mag_cert [where sh = 121 and q = 13421772])

lemma lit_17: "float_lit 186 10 = 0x4194CCCD"
  by (simp add: ev0 round_mag_cert [where sh = 130 and q = 9751756])

lemma lit_18: "float_lit 185 10 = 0x41940000"
  by (simp add: ev0 round_mag_cert [where sh = 130 and q = 9699328])

lemma lit_19: "float_lit 12 1 = 0x41400000"
  by (simp add: ev0 round_mag_cert [where sh = 129 and q = 12582912])

lemma lit_20: "float_lit 1865 100 = 0x41953333"
  by (simp add: ev0 round_mag_cert [where sh = 130 and q = 9777971])

lemma lit_21: "float_lit 187 10 = 0x4195999A"
  by (simp add: ev0 round_mag_cert [where sh = 130 and q = 9804185])

lemma lit_22: "float_lit 26 10 = 0x40266666"
  by (simp add: ev0 round_mag_cert [where sh = 127 and q = 10905190])

lemma lit_23: "float_lit 25 10 = 0x40200000"
  by (simp add: ev0 round_mag_cert [where sh = 127 and q = 10485760])

lemma lit_24: "float_lit 29 10 = 0x4039999A"
  by (simp add: ev0 round_mag_cert [where sh = 127 and q = 12163481])

lemma lit_25: "float_lit 103 10 = 0x4124CCCD"
  by (simp add: ev0 round_mag_cert [where sh = 129 and q = 10800332])

lemma rnd_26: "fsub 0x40A00000 0 = 0x40A00000"
  by (simp add: ev0 round_mag_cert [where sh = 128 and q = 10485760])

lemma rnd_27: "fsub 0x3F000000 0 = 0x3F000000"
  by (simp add: ev0 round_mag_cert [where sh = 125 and q = 8388608])

lemma rnd_28: "fmul 0x3ECCCCCD 0 = 0"
  by (simp add: ev0 round_mag_cert [where sh = 0 and q = 0])

lemma rnd_29: "fsub 0x3F800000 0x3ECCCCCD = 0x3F19999A"
  by (simp add: ev0 round_mag_cert [where sh = 125 and q = 10066329])

lemma rnd_30: "fmul 0x3F19999A 0x3F000000 = 0x3E99999A"
  by (simp add: ev0 round_mag_cert [where sh = 124 and q = 10066330])

lemma rnd_31: "fadd 0 0x3E99999A = 0x3E99999A"
  by (simp add: ev0 round_mag_cert [where sh = 124 and q = 10066330])

lemma rnd_32: "fsub 0x3E4CCCCD 0 = 0x3E4CCCCD"
  by (simp add: ev0 round_mag_cert [where sh = 123 and q = 13421773])

lemma rnd_33: "fmul 0x3F333333 0 = 0"
  by (simp add: ev0 round_mag_cert [where sh = 0 and q = 0])

lemma rnd_34: "fsub 0x3F800000 0x3F333333 = 0x3E99999A"
  by (simp add: ev0 round_mag_cert [where sh = 124 and q = 10066330])

lemma rnd_35: "fmul 0x3E99999A 0x3E4CCCCD = 0x3D75C290"
  by (simp add: ev0 round_mag_cert [where sh = 121 and q = 16106128])

lemma rnd_36: "fadd 0 0x3D75C290 = 0x3D75C290"
  by (simp add: ev0 round_mag_cert [where sh = 121 and q = 16106128])

lemma rnd_37: "fsub 0x3D4CCCCD 0 = 0x3D4CCCCD"
  by (simp add: ev0 round_mag_cert [where sh = 121 and q = 13421773])

lemma rnd_38: "fmul 0x3F733333 0 = 0"
  by (simp add: ev0 round_mag_cert [where sh = 0 and q = 0])

lemma rnd_39: "fsub 0x3F800000 0x3F733333 = 0x3D4CCCD0"
  by (simp add: ev0 round_mag_cert [where sh = 121 and q = 13421776])

lemma rnd_40: "fmul 0x3D4CCCD0 0x3D4CCCCD = 0x3B23D70D"
  by (simp add: ev0 round_mag_cert [where sh = 117 and q = 10737420])

lemma rnd_41: "fadd 0 0x3B23D70D = 0x3B23D70D"
  by (simp add: ev0 round_mag_cert [where sh = 117 and q = 10737421])

lemma rnd_42: "fsub 0x41953333 0x4194CCCD = 0x3D4CCC00"
  by (simp add: ev0 round_mag_cert [where sh = 121 and q = 13421568])

lemma rnd_43: "fsub 0x4195999A 0x4194CCCD = 0x3DCCCD00"
  by (simp add: ev0 round_mag_cert [where sh = 122 and q = 13421824])

lemma rnd_44: "fsub 0x40200000 0x40266666 = 0xBDCCCCC0"
  by (simp add: ev0 round_mag_cert [where sh = 122 and q = 13421760])

lemma rnd_45: "fsub 0x4039999A 0x40266666 = 0x3E9999A0"
  by (simp add: ev0 round_mag_cert [where sh = 124 and q = 10066336])

lemma rnd_46: "fsub 0x41200000 0 = 0x41200000"
  by (simp add: ev0 round_mag_cert [where sh = 129 and q = 10485760])

lemma rnd_47: "fmul 0x41200000 0x41200000 = 0x42C80000"
  by (simp add: ev0 round_mag_cert [where sh = 132 and q = 13107200])

lemma rnd_48: "roundf 0x42C80000 = 0x42C80000"
  by (simp add: ev0 round_mag_cert [where sh = 132 and q = 13107200])

lemma rnd_49: "fdiv 0x42C80000 0x41200000 = 0x41200000"
  by (simp add: ev0 round_mag_cert [where sh = 129 and q = 10485760])

lemma rnd_50: "float_of_u32 1 = 0x3F800000"
  by (simp add: ev0 round_mag_cert [where sh = 126 and q = 8388608])

lemma rnd_51: "fdiv 0x3F800000 0x447A0000 = 0x3A83126F"
  by (simp add: ev0 round_mag_cert [where sh = 116 and q = 8589934])

lemma rnd_52: "fsub 0 0x41200000 = 0xC1200000"
  by (simp add: ev0 round_mag_cert [where sh = 129 and q = 10485760])

lemma rnd_53: "fmul 0 0x41200000 = 0"
  by (simp add: ev0 round_mag_cert [where sh = 0 and q = 0])

lemma rnd_54: "roundf 0 = 0"
  by (simp add: ev0 round_mag_cert [where sh = 0 and q = 0])

lemma rnd_55: "fdiv 0 0x41200000 = 0"
  by (simp add: ev0 round_mag_cert [where sh = 0 and q = 0])

lemma rnd_56: "float_of_u32 41 = 0x42240000"
  by (simp add: ev0 round_mag_cert [where sh = 131 and q = 10747904])

lemma rnd_57: "fdiv 0x42240000 0x447A0000 = 0x3D27EF9E"
  by (simp add: ev0 round_mag_cert [where sh = 121 and q = 11005853])

lemma rnd_58: "fsub 0x4124CCCD 0x41200000 = 0x3E9999A0"
  by (simp add: ev0 round_mag_cert [where sh = 124 and q = 10066336])

lemma rnd_59: "fmul 0x3ECCCCCD 0x41200000 = 0x40800000"
  by (simp add: ev0 round_mag_cert [where sh = 128 and q = 8388608])

lemma rnd_60: "fmul 0x3F19999A 0x4124CCCD = 0x40C5C290"
  by (simp add: ev0 round_mag_cert [where sh = 128 and q = 12960400])

lemma rnd_61: "fadd 0x40800000 0x40C5C290 = 0x4122E148"
  by (simp add: ev0 round_mag_cert [where sh = 129 and q = 10674504])

lemma rnd_62: "fsub 0x4122E148 0x41200000 = 0x3E385200"
  by (simp add: ev0 round_mag_cert [where sh = 123 and q = 12079616])

lemma rnd_63: "fmul 0x4122E148 0x41200000 = 0x42CB999A"
  by (simp add: ev0 round_mag_cert [where sh = 132 and q = 13343130])

lemma rnd_64: "roundf 0x42CB999A = 0x42CC0000"
  by (simp add: ev0 round_mag_cert [where sh = 132 and q = 13369344])

lemma rnd_65: "fdiv 0x42CC0000 0x41200000 = 0x41233333"
  by (simp add: ev0 round_mag_cert [where sh = 129 and q = 10695475])

lemma rnd_66: "fsub 0x41233333 0x41200000 = 0x3E4CCCC0"
  by (simp add: ev0 round_mag_cert [where sh = 123 and q = 13421760])

lemma rnd_67: "fmul 0x3F733333 0x40266666 = 0x401E147A"
  by (simp add: ev0 round_mag_cert [where sh = 127 and q = 10359930])

lemma rnd_68: "fmul 0x3D4CCCD0 0x40266666 = 0x3E051EBA"
  by (simp add: ev0 round_mag_cert [where sh = 123 and q = 8724154])

lemma rnd_69: "fadd 0x401E147A 0x3E051EBA = 0x40266666"
  by (simp add: ev0 round_mag_cert [where sh = 127 and q = 10905189])

lemma rnd_70: "fmul 0x40266666 0x41200000 = 0x41D00000"
  by (simp add: ev0 round_mag_cert [where sh = 130 and q = 13631487])

lemma rnd_71: "roundf 0x41D00000 = 0x41D00000"
  by (simp add: ev0 round_mag_cert [where sh = 130 and q = 13631488])

lemma rnd_72: "fdiv 0x41D00000 0x41200000 = 0x40266666"
  by (simp add: ev0 round_mag_cert [where sh = 127 and q = 10905190])

lemma rnd_73: "float_of_u32 1302 = 0x44A2C000"
  by (simp add: ev0 round_mag_cert [where sh = 136 and q = 10665984])

lemma rnd_74: "fdiv 0x44A2C000 0x447A0000 = 0x3FA6A7F0"
  by (simp add: ev0 round_mag_cert [where sh = 126 and q = 10921967])

lemma cmp_1:
  "fabsf 0x40A00000 = 0x40A00000"
  "fgt 0x40A00000 0x3F800000"
  "fgt 0x40A00000 0x3E99999A"
  "\<not> fle 0x40A00000 0x3E99999A"
  "fgt 0x40A00000 0x3DCCCCCD"
  "\<not> fle 0x40A00000 0x3DCCCCCD"
  "fabsf 0x3F000000 = 0x3F000000"
  "\<not> fgt 0x3F000000 0x3F800000"
  "fgt 0x3F000000 0x3E99999A"
  "\<not> fle 0x3F000000 0x3E99999A"
  "fgt 0x3F000000 0x3DCCCCCD"
  "\<not> fle 0x3F000000 0x3DCCCCCD"
  "fabsf 0x3E4CCCCD = 0x3E4CCCCD"
  "\<not> fgt 0x3E4CCCCD 0x3F800000"
  "\<not> fgt 0x3E4CCCCD 0x3E99999A"
  "fgt 0x3E4CCCCD 0x3DCCCCCD"
  "fle 0x3E4CCCCD 0x3E99999A"
  "\<not> fle 0x3E4CCCCD 0x3DCCCCCD"
  "fabsf 0x3D4CCCCD = 0x3D4CCCCD"
  "\<not> fgt 0x3D4CCCCD 0x3F800000"
  "\<not> fgt 0x3D4CCCCD 0x3E99999A"
  "\<not> fgt 0x3D4CCCCD 0x3DCCCCCD"
  "fle 0x3D4CCCCD 0x3E99999A"
  "fle 0x3D4CCCCD 0x3DCCCCCD"
  "fabsf 0x3D4CCC00 = 0x3D4CCC00"
  "flt 0x3D4CCC00 0x3DA3D70A"
  "\<not> fge 0x3D4CCC00 0x3DA3D70A"
  "fabsf 0x3DCCCD00 = 0x3DCCCD00"
  "\<not> flt 0x3DCCCD00 0x3DA3D70A"
  "fge 0x3DCCCD00 0x3DA3D70A"
  "fneg 0x3DCCCCCD = 0xBDCCCCCD"
  "fneg 0x3E99999A = 0xBE99999A"
  "fneg 0 = 0x80000000"
  "flt 0xBE99999A 0xBDCCCCCD"
  "fle 0xBDCCCCCD 0"
  "\<not> fle 0 0xBDCCCCCD"
  "flt 0xBDCCCCCD 0x3E4CCCCD"
  "\<not> fle 0xBDCCCCCD 0xBE99999A"
  "\<not> fge 0xBDCCCCCD 0x3E4CCCCD"
  "flt 0xBDCCCCCD 0"
  "fabsf 0xBDCCCCCD = 0x3DCCCCCD"
  "flt 0x3DCCCCCD 0x3E99999A"
  "feq 0 0"
  "flt 0xBE99999A 0x3DCCCCCD"
  "\<not> fle 0x3DCCCCCD 0"
  by (simp_all add: ev0)

lemma cmp_2:
  "fle 0 0x3DCCCCCD"
  "flt 0x3DCCCCCD 0x3E4CCCCD"
  "\<not> fle 0x3DCCCCCD 0xBE99999A"
  "\<not> fge 0x3DCCCCCD 0x3E4CCCCD"
  "\<not> flt 0x3DCCCCCD 0"
  "fgt 0x3DCCCCCD 0"
  "fabsf 0x3DCCCCCD = 0x3DCCCCCD"
  "\<not> flt 0xBE99999A 0xBE99999A"
  "fle 0xBE99999A 0"
  "\<not> fle 0 0xBE99999A"
  "flt 0xBE99999A 0x3E4CCCCD"
  "fle 0xBE99999A 0xBE99999A"
  "\<not> fge 0xBE99999A 0x3E4CCCCD"
  "flt 0xBE99999A 0"
  "fabsf 0xBE99999A = 0x3E99999A"
  "\<not> flt 0x3E99999A 0x3E99999A"
  "\<not> fgt 0xBE99999A 0"
  "\<not> feq 0xBE99999A 0"
  "\<not> fle 0x3E4CCCCD 0"
  "fle 0 0x3E4CCCCD"
  "\<not> flt 0x3E4CCCCD 0x3E4CCCCD"
  "\<not> fle 0x3E4CCCCD 0xBE99999A"
  "fge 0x3E4CCCCD 0x3E4CCCCD"
  "\<not> flt 0x3E4CCCCD 0"
  "fgt 0x3E4CCCCD 0"
  "\<not> feq 0x3E4CCCCD 0"
  "flt 0xBE99999A 0x80000000"
  "fle 0x80000000 0"
  "fle 0 0x80000000"
  "flt 0x80000000 0x3E4CCCCD"
  "\<not> fle 0x80000000 0xBE99999A"
  "\<not> fge 0x80000000 0x3E4CCCCD"
  "\<not> flt 0x80000000 0"
  "\<not> fgt 0x80000000 0"
  "feq 0x80000000 0"
  "flt 0xBDCCCCC0 0"
  "flt 0xBDCCCCC0 0x3E4CCCCD"
  "\<not> fge 0xBDCCCCC0 0x3E4CCCCD"
  "fsub 0x40266666 0x40266666 = 0"
  "\<not> flt 0 0"
  "flt 0 0x3E4CCCCD"
  "\<not> fge 0 0x3E4CCCCD"
  "\<not> flt 0x3E9999A0 0"
  "\<not> flt 0x3E9999A0 0x3E4CCCCD"
  "fge 0x3E9999A0 0x3E4CCCCD"
  by (simp_all add: ev0)

lemma cmp_3:
  "\<not> feq 0 0x41200000"
  "fabsf 0x41200000 = 0x41200000"
  "fgt 0x41200000 0x3F800000"
  "fge 0x41200000 0x3DA3D70A"
  "\<not> flt 0x41200000 0"
  "fgt 0x41200000 0"
  "\<not> flt 0x41200000 0x3E4CCCCD"
  "fgt 0x41200000 0x40000000"
  "fabsf 0xC1200000 = 0x41200000"
  "\<not> fgt 0 0"
  "flt 0xC1200000 0x3E4CCCCD"
  "\<not> fgt 0 0x40000000"
  "fabsf 0x3E9999A0 = 0x3E9999A0"
  "\<not> fgt 0x3E9999A0 0x3F800000"
  "fgt 0x3E9999A0 0x3E99999A"
  "fabsf 0x3E385200 = 0x3E385200"
  "fge 0x3E385200 0x3DA3D70A"
  "\<not> flt 0x4122E148 0"
  "fgt 0x4122E148 0"
  "fabsf 0x4122E148 = 0x4122E148"
  "\<not> flt 0x4122E148 0x3E4CCCCD"
  "flt 0x3E4CCCC0 0x3E4CCCCD"
  "fgt 0x41233333 0x40000000"
  "fabsf 0 = 0"
  "\<not> fgt 0 0x3F800000"
  "\<not> fgt 0 0x3E99999A"
  "\<not> fgt 0 0x3DCCCCCD"
  "\<not> fge 0 0x3DA3D70A"
  "\<not> flt 0x40266666 0"
  "fgt 0x40266666 0"
  "fabsf 0x40266666 = 0x40266666"
  "\<not> flt 0x40266666 0x3E4CCCCD"
  "fgt 0x40266666 0x40000000"
  by (simp_all add: ev0)

lemmas lit_bits = lit_1 lit_2 lit_3 lit_4 lit_5 lit_6 lit_7 lit_8 lit_9 lit_10 lit_11 lit_12
  lit_13 lit_14 lit_15 lit_16 lit_17 lit_18 lit_19 lit_20 lit_21 lit_22 lit_23 lit_24 lit_25
  lit_1 [unfolded One_nat_def] lit_8 [unfolded One_nat_def] lit_9 [unfolded One_nat_def]
  lit_10 [unfolded One_nat_def] lit_11 [unfolded One_nat_def] lit_12 [unfolded One_nat_def]
  lit_14 [unfolded One_nat_def] lit_19 [unfolded One_nat_def]

lemmas ops = rnd_26 rnd_27 rnd_28 rnd_29 rnd_30 rnd_31 rnd_32 rnd_33 rnd_34 rnd_35 rnd_36
  rnd_37 rnd_38 rnd_39 rnd_40 rnd_41 rnd_42 rnd_43 rnd_44 rnd_45 rnd_46 rnd_47 rnd_48 rnd_49
  rnd_50 rnd_51 rnd_52 rnd_53 rnd_54 rnd_55 rnd_56 rnd_57 rnd_58 rnd_59 rnd_60 rnd_61 rnd_62
  rnd_63 rnd_64 rnd_65 rnd_66 rnd_67 rnd_68 rnd_69 rnd_70 rnd_71 rnd_72 rnd_73 rnd_74 cmp_1
  cmp_2 cmp_3

lemma f_int_fzero: "f_int fzero = 0" and isnan_fzero: "\<not> isnan fzero"
  by (simp_all add: fzero_def lit_bits ev_cmp)

lemma flt_c01_c03: "flt (float_lit 1 10) (float_lit 3 10)"
  by (simp add: lit_bits ev_cmp)

lemma flt_c03_c1: "flt (float_lit 3 10) (float_lit 1 1)"
  by (simp add: lit_bits ev_cmp)

lemma pos_zClampNeg: "0 < f_int zClampNeg" and pos_zClampPos: "0 < f_int zClampPos"
  and nan_zClampNeg: "\<not> isnan zClampNeg" and nan_zClampPos: "\<not> isnan zClampPos"
  by (simp_all add: zClampNeg_def zClampPos_def lit_bits ev_cmp)

lemma pos_minFlowG: "0 < f_int minFlowG" and nan_minFlowG: "\<not> isnan minFlowG"
  by (simp_all add: minFlowG_def lit_bits ev_cmp)

lemma flt_fzero_minFlowG: "flt d fzero \<Longrightarrow> flt d minFlowG"
  using pos_minFlowG nan_minFlowG by (simp add: flt_def f_int_fzero)

lemma minFlowT_less: "(minFlowT < w) = (800 < unat w)"
  by (simp add: minFlowT_def word_less_nat_alt)


section \<open>The blocks of \<^verbatim>\<open>loop()\<close>\<close>

subsection \<open>The wait for the release of the button\<close>

lemma wait_release_returns:
  "pin j = HIGH \<Longrightarrow> k \<le> j \<Longrightarrow> \<exists>n. wait_release pin k = Some n"
proof (induction "j - k" arbitrary: k)
  case 0
  then have "k = j" by simp
  with 0 show ?case by (subst wait_release.simps) simp
next
  case (Suc d)
  then have "j - Suc k = d" and "Suc k \<le> j" by simp_all
  with Suc have "\<exists>n. wait_release pin (Suc k) = Some n" by blast
  then show ?case by (subst wait_release.simps) simp
qed

lemma wait_release_Some_HIGH:
  assumes "wait_release pin k = Some n"
  shows "\<exists>j. pin j = HIGH"
proof (rule wait_release.raw_induct [where P = "\<lambda>p _ _. \<exists>j. p j = HIGH", OF _ assms])
  fix wr :: "(nat \<Rightarrow> level) \<Rightarrow> nat \<Rightarrow> nat option" and p i m
  assume IH: "\<And>q b y. wr q b = Some y \<Longrightarrow> \<exists>j. q j = HIGH"
    and eq: "(if p i = LOW then wr p (Suc i) else Some i) = Some m"
  show "\<exists>j. p j = HIGH"
  proof (cases "p i")
    case LOW
    with eq IH show ?thesis by simp
  next
    case HIGH
    then show ?thesis by blast
  qed
qed

text \<open>A button that is held for ever keeps the pass in the loop.\<close>

lemma wait_release_held: "\<forall>j. pin j = LOW \<Longrightarrow> wait_release pin k = None"
  using wait_release_Some_HIGH [of pin k] by (cases "wait_release pin k") auto

lemma loop_tare_pressed:
  assumes "pin 0 = LOW" "pin 1 = LOW" "pin j = HIGH"
  shows "loop_tare pin s = Some (True, tare_reset s)"
proof -
  have "2 \<le> j"
  proof (rule ccontr)
    assume "\<not> 2 \<le> j"
    then have "j = 0 \<or> j = 1" by auto
    with assms show False by auto
  qed
  from wait_release_returns [of pin j 2, OF assms(3) this]
  obtain n where "wait_release pin 2 = Some n" ..
  with assms show ?thesis by (simp add: loop_tare_def)
qed

lemma loop_tare_not_pressed:
  "pin 0 = HIGH \<or> pin 1 = HIGH \<Longrightarrow> loop_tare pin s = Some (False, s)"
  by (auto simp: loop_tare_def)

lemma loop_tare_held: "\<forall>j. pin j = LOW \<Longrightarrow> loop_tare pin s = None"
  by (simp add: loop_tare_def wait_release_held)

lemma loop_tare_cases:
  assumes "loop_tare pin s = Some (t, s1)"
  shows "(t \<and> s1 = tare_reset s) \<or> (\<not> t \<and> s1 = s)"
  using assms by (auto simp: loop_tare_def split: if_splits option.splits)

subsection \<open>What each block leaves alone\<close>

lemma loop_filter_eq:
  "loop_filter grams s =
     (let g1 = loop_ema grams (gFilt s);
          h = (if fge (fabsf (fsub g1 (shown_g s))) threshold then g1 else shown_g s)
      in s\<lparr>gFilt := quantize (varZeroClamp h), shown_g := h\<rparr>)"
  by (simp add: loop_filter_def hysteresis_def Let_def)

lemma loop_filter_frame:
  "running (loop_filter g s) = running s" "startOnce (loop_filter g s) = startOnce s"
  "tStart (loop_filter g s) = tStart s" "flowStopTimer (loop_filter g s) = flowStopTimer s"
  "time (loop_filter g s) = time s" "prevGFilt (loop_filter g s) = prevGFilt s"
  by (simp_all add: loop_filter_def hysteresis_def Let_def)

lemma loop_filter_gFilt:
  "gFilt (loop_filter g s) = quantize (varZeroClamp (fst (hysteresis (loop_ema g (gFilt s)) s)))"
  by (simp add: loop_filter_def hysteresis_def Let_def)

lemma loop_flow_frame:
  "gFilt (loop_flow now s) = gFilt s" "prevGFilt (loop_flow now s) = prevGFilt s"
  "tStart (loop_flow now s) = tStart s" "time (loop_flow now s) = time s"
  "shown_g (loop_flow now s) = shown_g s"
  by (simp_all add: loop_flow_def Let_def)

lemma loop_flow_idle: "\<not> running s \<Longrightarrow> loop_flow now s = s"
  by (simp add: loop_flow_def)

lemma loop_timer_frame:
  "gFilt (loop_timer a b s) = gFilt s" "prevGFilt (loop_timer a b s) = prevGFilt s"
  "shown_g (loop_timer a b s) = shown_g s"
  by (simp_all add: loop_timer_def Let_def)

lemma loop_timer_start:
  "\<not> running s \<Longrightarrow> fgt (gFilt s) timerStartG \<Longrightarrow>
     running (loop_timer a b s) \<and> tStart (loop_timer a b s) = a \<and>
     flowStopTimer (loop_timer a b s) = 0"
  by (simp add: loop_timer_def Let_def)

lemma loop_timer_elapsed:
  "running (loop_timer a b s) \<Longrightarrow> startOnce (loop_timer a b s) \<Longrightarrow>
     time (loop_timer a b s) =
       fdiv (float_of_u32 (b - tStart (loop_timer a b s))) (float_lit 1000 1)"
  by (simp add: loop_timer_def Let_def split: if_splits)

subsection \<open>One pass, without the local bindings\<close>

lemma loop_unfold:
  assumes "loop_tare (button i) s = Some (t, s1)"
  shows "loop i s =
    Some (loop_timer (millis_start i) (millis_time i)
            ((loop_flow (millis_stall i) (loop_filter (snd (loop_read i)) s1))
               \<lparr>prevGFilt := gFilt (loop_filter (snd (loop_read i)) s1)\<rparr>),
          \<lparr>d_val = fst (loop_read i), d_grams = snd (loop_read i),
            d_gFilt = gFilt (loop_filter (snd (loop_read i)) s1),
            d_time = time (loop_timer (millis_start i) (millis_time i)
              ((loop_flow (millis_stall i) (loop_filter (snd (loop_read i)) s1))
                 \<lparr>prevGFilt := gFilt (loop_filter (snd (loop_read i)) s1)\<rparr>)),
            tared = t\<rparr>)"
  using assms
  by (simp add: loop_def Let_def split_beta loop_timer_frame loop_flow_frame)

lemma loop_released:
  assumes "button i 0 = HIGH"
  shows "loop i s =
    Some (loop_timer (millis_start i) (millis_time i)
            ((loop_flow (millis_stall i) (loop_filter (snd (loop_read i)) s))
               \<lparr>prevGFilt := gFilt (loop_filter (snd (loop_read i)) s)\<rparr>),
          \<lparr>d_val = fst (loop_read i), d_grams = snd (loop_read i),
            d_gFilt = gFilt (loop_filter (snd (loop_read i)) s),
            d_time = time (loop_timer (millis_start i) (millis_time i)
              ((loop_flow (millis_stall i) (loop_filter (snd (loop_read i)) s))
                 \<lparr>prevGFilt := gFilt (loop_filter (snd (loop_read i)) s)\<rparr>)),
            tared = False\<rparr>)"
  using loop_unfold [of i s False s] assms by (simp add: loop_tare_not_pressed)

lemma loop_Some_tare:
  assumes "loop i s = Some (s', d)"
  obtains t s1 where "loop_tare (button i) s = Some (t, s1)"
  using assms by (cases "loop_tare (button i) s") (auto simp: loop_def)

text \<open>A pass ends exactly when the button is not held for ever.\<close>

lemma loop_returns: "button i j = HIGH \<Longrightarrow> \<exists>r. loop i s = Some r"
proof (cases "button i 0 = LOW \<and> button i 1 = LOW")
  case True
  assume "button i j = HIGH"
  with True have "loop_tare (button i) s = Some (True, tare_reset s)"
    by (intro loop_tare_pressed) auto
  from loop_unfold [OF this] show ?thesis by blast
next
  case False
  then have "button i 0 = HIGH \<or> button i 1 = HIGH"
    by (metis level.exhaust)
  then have "loop_tare (button i) s = Some (False, s)"
    by (rule loop_tare_not_pressed)
  from loop_unfold [OF this] show ?thesis by blast
qed

lemma loop_held: "\<forall>j. button i j = LOW \<Longrightarrow> loop i s = None"
  by (simp add: loop_def loop_tare_held)

subsection \<open>The concrete runs\<close>

lemmas run_defs = loop_released released_def loop_read_def loop_filter_eq loop_ema_def
  varZeroClamp_def quantize_def loop_flow_def loop_timer_def Let_def knobs init_state_def
  lit_bits ops

lemma placed_run:
  "loop placed_tick init_state =
     Some (placed_state,
           \<lparr>d_val = 7340, d_grams = float_lit 10 1, d_gFilt = float_lit 10 1,
            d_time = 0x3A83126F, tared = False\<rparr>)"
  by (simp add: placed_tick_def placed_state_def run_defs)

lemma idle_run:
  "loop idle_tick placed_state =
     Some (\<lparr>gFilt = fzero, prevGFilt = fzero, running = True, time = 0x3D27EF9E,
             startOnce = True, shown_g = fzero, tStart = 1001, flowStopTimer = 1040\<rparr>,
           \<lparr>d_val = 0, d_grams = fzero, d_gFilt = fzero, d_time = 0x3D27EF9E, tared = False\<rparr>)"
  by (simp add: idle_tick_def placed_state_def run_defs)

lemma pouring_run:
  "loop pouring_tick placed_state =
     Some (\<lparr>gFilt = float_lit 102 10, prevGFilt = float_lit 102 10, running = True,
             time = 0x3D27EF9E, startOnce = True, shown_g = 0x4122E148, tStart = 1001,
             flowStopTimer = 1040\<rparr>,
           \<lparr>d_val = 7560, d_grams = float_lit 103 10, d_gFilt = float_lit 102 10,
            d_time = 0x3D27EF9E, tared = False\<rparr>)"
  by (simp add: pouring_tick_def placed_state_def run_defs)

lemma stall_run:
  "loop stall_tick pour_state =
     Some (pour_state\<lparr>time := 0x3FA6A7F0\<rparr>,
           \<lparr>d_val = 1908, d_grams = float_lit 26 10, d_gFilt = float_lit 26 10,
            d_time = 0x3FA6A7F0, tared = False\<rparr>)"
  by (simp add: stall_tick_def pour_state_def run_defs)

text \<open>
  One millisecond later the flow-stop rule fires, and the start rule of the same pass
  sets \<open>running\<close> again, since the weight is still above 2 g: what remains of the stop is
  the cleared latch, which freezes the elapsed time.
\<close>

lemma stall_late_run:
  "loop (stall_tick\<lparr>millis_stall := 1801\<rparr>) pour_state =
     Some (pour_state\<lparr>startOnce := False, tStart := 1801, flowStopTimer := 0\<rparr>,
           \<lparr>d_val = 1908, d_grams = float_lit 26 10, d_gFilt = float_lit 26 10,
            d_time = float_lit 5 10, tared = False\<rparr>)"
  by (simp add: stall_tick_def pour_state_def run_defs)


section \<open>The claims\<close>

text \<open>
  The decimal constants of a claim are read as the \<^verbatim>\<open>float\<close> constants the sketch
  compares with (\<open>0.3\<close> is \<open>float_lit 3 10\<close>), \<open>|r - p|\<close> as \<open>fabsf (fsub r p)\<close>, and the
  order relations as the comparison operators of C.
\<close>

subsection \<open>C1: the adaptive filter\<close>

text \<open>
  C1.  With previous output \<open>p\<close> and reading \<open>r\<close>: if \<open>|r - p| > 1.0\<close> the new output is \<open>r\<close>
  itself; otherwise it is \<open>a * p + (1 - a) * r\<close> where \<open>a = 0.4\<close> if \<open>|r - p| > 0.3\<close>,
  \<open>a = 0.7\<close> if \<open>0.1 < |r - p| \<le> 0.3\<close>, and \<open>a = 0.95\<close> if \<open>|r - p| \<le> 0.1\<close>.
\<close>

theorem adaptive_filter_bands:
  "(fgt (fabsf (fsub r p)) (float_lit 1 1) \<longrightarrow> loop_ema r p = r) \<and>
   (\<not> fgt (fabsf (fsub r p)) (float_lit 1 1) \<and> fgt (fabsf (fsub r p)) (float_lit 3 10) \<longrightarrow>
      loop_ema r p = fadd (fmul emaBig p) (fmul (fsub (float_lit 1 1) emaBig) r)) \<and>
   (fgt (fabsf (fsub r p)) (float_lit 1 10) \<and> fle (fabsf (fsub r p)) (float_lit 3 10) \<longrightarrow>
      loop_ema r p = fadd (fmul emaMed p) (fmul (fsub (float_lit 1 1) emaMed) r)) \<and>
   (fle (fabsf (fsub r p)) (float_lit 1 10) \<longrightarrow>
      loop_ema r p = fadd (fmul emaSma p) (fmul (fsub (float_lit 1 1) emaSma) r))"
proof -
  let ?err = "fabsf (fsub r p)"
  have le03: "\<not> fgt ?err (float_lit 1 1)" if "fle ?err (float_lit 3 10)"
    using fle_flt_trans [OF that flt_c03_c1] by (simp add: fgt_def flt_def)
  have le01: "fle ?err (float_lit 3 10)" if "fle ?err (float_lit 1 10)"
    using fle_flt_trans [OF that flt_c01_c03] by (simp add: fle_def flt_def)
  show ?thesis
    using le03 le01 by (auto simp: loop_ema_def Let_def dest: fle_not_fgt)
qed

text \<open>From a stored 0: the readings 5, 0.5, 0.2 and 0.05, one for each band.\<close>

theorem adaptive_filter_bands_witness:
  "fgt (fabsf (fsub (float_lit 5 1) fzero)) (float_lit 1 1) \<and>
   loop_ema (float_lit 5 1) fzero = float_lit 5 1 \<and>
   \<not> fgt (fabsf (fsub (float_lit 5 10) fzero)) (float_lit 1 1) \<and>
   fgt (fabsf (fsub (float_lit 5 10) fzero)) (float_lit 3 10) \<and>
   loop_ema (float_lit 5 10) fzero = float_lit 3 10 \<and>
   fgt (fabsf (fsub (float_lit 2 10) fzero)) (float_lit 1 10) \<and>
   fle (fabsf (fsub (float_lit 2 10) fzero)) (float_lit 3 10) \<and>
   loop_ema (float_lit 2 10) fzero = 0x3D75C290 \<and>
   fle (fabsf (fsub (float_lit 5 100) fzero)) (float_lit 1 10) \<and>
   loop_ema (float_lit 5 100) fzero = 0x3B23D70D"
  using adaptive_filter_bands [of "float_lit 5 1" fzero]
    adaptive_filter_bands [of "float_lit 5 10" fzero]
    adaptive_filter_bands [of "float_lit 2 10" fzero]
    adaptive_filter_bands [of "float_lit 5 100" fzero]
  by (simp add: knobs lit_bits ops)

subsection \<open>C2: the flow-stop rule\<close>

text \<open>
  C2, as the claim states it, makes the timer stop once the stall has lasted 800 ms or
  more.  The sketch compares with \<^verbatim>\<open>>\<close>: in the pass below the timer runs, the stable
  weight has not moved (2.6 g before and after), the flow-stop clock was started at
  1000 ms and \<^verbatim>\<open>millis()\<close> answers 1800, so the stall has lasted exactly 800 ms; the pass
  leaves the timer running, the latch set and the flow-stop clock at 1000.
\<close>

theorem flow_stop_at_800_counterexample:
  "running pour_state \<and> startOnce pour_state \<and> flowStopTimer pour_state = 1000 \<and>
   millis_stall stall_tick = 1800 \<and>
   800 \<le> unat (millis_stall stall_tick - flowStopTimer pour_state) \<and>
   flt (fsub (float_lit 26 10) (prevGFilt pour_state)) minFlowG \<and>
   loop stall_tick pour_state =
     Some (pour_state\<lparr>time := 0x3FA6A7F0\<rparr>,
           \<lparr>d_val = 1908, d_grams = float_lit 26 10, d_gFilt = float_lit 26 10,
            d_time = 0x3FA6A7F0, tared = False\<rparr>) \<and>
   running (pour_state\<lparr>time := 0x3FA6A7F0\<rparr>) \<and>
   startOnce (pour_state\<lparr>time := 0x3FA6A7F0\<rparr>) \<and>
   flowStopTimer (pour_state\<lparr>time := 0x3FA6A7F0\<rparr>) = 1000"
  using stall_run by (simp add: pour_state_def stall_tick_def knobs lit_bits ops)

text \<open>
  C2, amended.  While the timer is Running, the flow-stop rule (lines 167-181) does the
  following with \<open>delta\<close>, the stable weight of this pass minus that of the previous one.
  A \<open>delta\<close> below 0.2, and so every negative one, is a stall: if the flow-stop clock is
  not started (it is 0), it is set to the reading of \<^verbatim>\<open>millis()\<close>; if it is started and
  more than 800 ms have passed since (in 32-bit wrap-around arithmetic), the timer is set
  to Idle, the latch is cleared and the flow-stop clock is cleared; if it is started and
  at most 800 ms have passed, nothing changes.  A \<open>delta\<close> of 0.2 or more clears the
  flow-stop clock and changes nothing else.
\<close>

theorem flow_stop_rule:
  assumes "running s"
  shows "(flt (fsub (gFilt s) (prevGFilt s)) fzero \<longrightarrow>
            flt (fsub (gFilt s) (prevGFilt s)) minFlowG) \<and>
         (flt (fsub (gFilt s) (prevGFilt s)) minFlowG \<and> flowStopTimer s = 0 \<longrightarrow>
            loop_flow now s = s\<lparr>flowStopTimer := now\<rparr>) \<and>
         (flt (fsub (gFilt s) (prevGFilt s)) minFlowG \<and> flowStopTimer s \<noteq> 0 \<and>
            800 < unat (now - flowStopTimer s) \<longrightarrow>
            loop_flow now s = s\<lparr>running := False, startOnce := False, flowStopTimer := 0\<rparr>) \<and>
         (flt (fsub (gFilt s) (prevGFilt s)) minFlowG \<and> flowStopTimer s \<noteq> 0 \<and>
            unat (now - flowStopTimer s) \<le> 800 \<longrightarrow>
            loop_flow now s = s) \<and>
         (fge (fsub (gFilt s) (prevGFilt s)) minFlowG \<longrightarrow>
            loop_flow now s = s\<lparr>flowStopTimer := 0\<rparr>)"
  using assms
  by (auto simp: loop_flow_def Let_def minFlowT_less dest: flt_fzero_minFlowG fge_not_flt)

text \<open>A falling weight, a first stall pass, a stall of 801 ms, one of 800 ms, and a flow
  of 0.3 g.\<close>

theorem flow_stop_rule_witness:
  "running pour_state \<and>
   flt (fsub (float_lit 25 10) (prevGFilt pour_state)) fzero \<and>
   flt (fsub (float_lit 25 10) (prevGFilt pour_state)) minFlowG \<and>
   loop_flow 1040 (pour_state\<lparr>gFilt := float_lit 25 10\<rparr>) =
     pour_state\<lparr>gFilt := float_lit 25 10\<rparr> \<and>
   flt (fsub (gFilt pour_state) (prevGFilt pour_state)) minFlowG \<and>
   loop_flow 1000 (pour_state\<lparr>flowStopTimer := 0\<rparr>) = pour_state \<and>
   flowStopTimer pour_state = 1000 \<and>
   loop_flow 1801 pour_state =
     pour_state\<lparr>running := False, startOnce := False, flowStopTimer := 0\<rparr> \<and>
   loop_flow 1800 pour_state = pour_state \<and>
   fge (fsub (float_lit 29 10) (prevGFilt pour_state)) minFlowG \<and>
   loop_flow 1801 (pour_state\<lparr>gFilt := float_lit 29 10\<rparr>) =
     pour_state\<lparr>gFilt := float_lit 29 10, flowStopTimer := 0\<rparr>"
  using flow_stop_rule [of "pour_state\<lparr>gFilt := float_lit 25 10\<rparr>" 1040]
    flow_stop_rule [of "pour_state\<lparr>flowStopTimer := 0\<rparr>" 1000]
    flow_stop_rule [of pour_state 1801] flow_stop_rule [of pour_state 1800]
    flow_stop_rule [of "pour_state\<lparr>gFilt := float_lit 29 10\<rparr>" 1801]
  by (simp add: pour_state_def knobs lit_bits ops)

subsection \<open>C3: the start rule and the elapsed time\<close>

text \<open>
  C3.  In every pass that ends: if the timer is Idle when the pass begins and the stable
  weight of the pass exceeds 2.0, the pass leaves the timer Running, with the reading of
  \<^verbatim>\<open>millis()\<close> as start time and the flow-stop clock cleared; and if the pass leaves the
  timer Running with the latch set (the test of line 192), the elapsed time is the
  reading of \<^verbatim>\<open>millis()\<close> minus the start time, converted to \<^verbatim>\<open>float\<close> and divided by
  1000: computed from the clock, not from the elapsed time before.
\<close>

theorem timer_start_and_elapsed:
  assumes "loop i s = Some (s', d)"
  shows "(\<not> running s \<and> fgt (d_gFilt d) timerStartG \<longrightarrow>
            running s' \<and> tStart s' = millis_start i \<and> flowStopTimer s' = 0) \<and>
         (running s' \<and> startOnce s' \<longrightarrow>
            time s' = fdiv (float_of_u32 (millis_time i - tStart s')) (float_lit 1000 1) \<and>
            d_time d = time s')"
proof -
  from assms obtain t s1 where tare: "loop_tare (button i) s = Some (t, s1)"
    by (rule loop_Some_tare)
  let ?g = "snd (loop_read i)"
  let ?s4 = "(loop_flow (millis_stall i) (loop_filter ?g s1))
               \<lparr>prevGFilt := gFilt (loop_filter ?g s1)\<rparr>"
  from loop_unfold [OF tare] assms
  have s': "s' = loop_timer (millis_start i) (millis_time i) ?s4"
    and d: "d_gFilt d = gFilt (loop_filter ?g s1)" "d_time d = time s'"
    by auto
  have idle: "\<not> running ?s4" if "\<not> running s"
  proof -
    from loop_tare_cases [OF tare] that have "\<not> running s1"
      by (auto simp: tare_reset_def)
    then show ?thesis by (simp add: loop_flow_idle loop_filter_frame)
  qed
  have g4: "gFilt ?s4 = gFilt (loop_filter ?g s1)"
    by (simp add: loop_flow_frame)
  show ?thesis
    using idle loop_timer_start [of ?s4 "millis_start i" "millis_time i"]
      loop_timer_elapsed [of "millis_start i" "millis_time i" ?s4]
    by (auto simp: s' d g4)
qed

text \<open>The pass that sees the cup of 10 g: Idle before, Running after, started at 1001 ms,
  elapsed time (1002 - 1001) / 1000.\<close>

theorem timer_start_and_elapsed_witness:
  "loop placed_tick init_state =
     Some (placed_state,
           \<lparr>d_val = 7340, d_grams = float_lit 10 1, d_gFilt = float_lit 10 1,
            d_time = 0x3A83126F, tared = False\<rparr>) \<and>
   \<not> running init_state \<and> fgt (float_lit 10 1) timerStartG \<and>
   running placed_state \<and> tStart placed_state = millis_start placed_tick \<and>
   flowStopTimer placed_state = 0 \<and> startOnce placed_state \<and>
   time placed_state =
     fdiv (float_of_u32 (millis_time placed_tick - tStart placed_state)) (float_lit 1000 1)"
  using timer_start_and_elapsed [OF placed_run] placed_run
  by (simp add: init_state_def placed_state_def placed_tick_def knobs lit_bits ops)

subsection \<open>C4: the tare\<close>

text \<open>
  C4.  A tare event (the button read LOW twice, and released at some later reading) forces
  the timer to Idle, sets the latch back to true, resets the elapsed time to 0, clears
  the flow-stop clock and resets the stored filter output to 0, whatever the state before.
\<close>

theorem tare_resets_all:
  assumes "pin 0 = LOW" "pin 1 = LOW" "pin j = HIGH"
  shows "loop_tare pin s = Some (True, tare_reset s) \<and>
         running (tare_reset s) = False \<and> startOnce (tare_reset s) = True \<and>
         time (tare_reset s) = fzero \<and> flowStopTimer (tare_reset s) = 0 \<and>
         gFilt (tare_reset s) = fzero"
  using loop_tare_pressed [OF assms] by (simp add: tare_reset_def)

theorem tare_resets_all_witness:
  "pressed_until 3 0 = LOW \<and> pressed_until 3 1 = LOW \<and> pressed_until 3 3 = HIGH \<and>
   running busy_state \<and> \<not> startOnce busy_state \<and> flowStopTimer busy_state = 16500 \<and>
   loop_tare (pressed_until 3) busy_state = Some (True, tare_reset busy_state) \<and>
   running (tare_reset busy_state) = False \<and> startOnce (tare_reset busy_state) = True \<and>
   time (tare_reset busy_state) = fzero \<and> flowStopTimer (tare_reset busy_state) = 0 \<and>
   gFilt (tare_reset busy_state) = fzero"
  using tare_resets_all [of "pressed_until 3" 3 busy_state]
  by (simp add: pressed_until_def busy_state_def)

subsection \<open>C5: a sensor that is not ready\<close>

text \<open>
  C5, as the claim states it, feeds a pass whose sensor is not ready with the readings of
  the last successful read.  \<^verbatim>\<open>val\<close> and \<^verbatim>\<open>grams\<close> are locals that start at 0 in every
  pass: after a pass that read 7340 and 10 g, the pass below, whose sensor is not ready,
  shows 0 and 0.0 and its filter snaps from 10 g to 0.
\<close>

theorem not_ready_stale_counterexample:
  "is_ready placed_tick \<and> get_value placed_tick = 7340 \<and>
   get_units placed_tick = float_lit 10 1 \<and>
   loop placed_tick init_state =
     Some (placed_state,
           \<lparr>d_val = 7340, d_grams = float_lit 10 1, d_gFilt = float_lit 10 1,
            d_time = 0x3A83126F, tared = False\<rparr>) \<and>
   \<not> is_ready idle_tick \<and>
   loop idle_tick placed_state =
     Some (\<lparr>gFilt = fzero, prevGFilt = fzero, running = True, time = 0x3D27EF9E,
             startOnce = True, shown_g = fzero, tStart = 1001, flowStopTimer = 1040\<rparr>,
           \<lparr>d_val = 0, d_grams = fzero, d_gFilt = fzero, d_time = 0x3D27EF9E, tared = False\<rparr>) \<and>
   (0 :: long) \<noteq> 7340 \<and> \<not> feq fzero (float_lit 10 1)"
  using placed_run idle_run by (simp add: placed_tick_def idle_tick_def knobs lit_bits ops)

text \<open>
  C5, amended.  In a pass whose sensor is not ready, the raw and units readings fed into
  the pipeline and shown are the defaults 0 and 0.0: the pass does exactly what a pass
  does whose sensor is ready and answers 0 and 0.0.
\<close>

theorem not_ready_reads_zero:
  assumes "\<not> is_ready i" and "loop i s = Some (s', d)"
  shows "d_val d = 0 \<and> d_grams d = fzero \<and>
         loop (i\<lparr>is_ready := True, get_value := 0, get_units := fzero\<rparr>) s = Some (s', d)"
  using assms by (auto simp: loop_def loop_read_def Let_def split: option.splits)

theorem not_ready_reads_zero_witness:
  "\<not> is_ready idle_tick \<and>
   loop idle_tick placed_state =
     Some (\<lparr>gFilt = fzero, prevGFilt = fzero, running = True, time = 0x3D27EF9E,
             startOnce = True, shown_g = fzero, tStart = 1001, flowStopTimer = 1040\<rparr>,
           \<lparr>d_val = 0, d_grams = fzero, d_gFilt = fzero, d_time = 0x3D27EF9E, tared = False\<rparr>) \<and>
   loop (idle_tick\<lparr>is_ready := True, get_value := 0, get_units := fzero\<rparr>) placed_state =
     Some (\<lparr>gFilt = fzero, prevGFilt = fzero, running = True, time = 0x3D27EF9E,
             startOnce = True, shown_g = fzero, tStart = 1001, flowStopTimer = 1040\<rparr>,
           \<lparr>d_val = 0, d_grams = fzero, d_gFilt = fzero, d_time = 0x3D27EF9E, tared = False\<rparr>)"
  using not_ready_reads_zero [OF _ idle_run] idle_run by (simp add: idle_tick_def)

subsection \<open>C6: the hysteresis gate\<close>

text \<open>
  C6.  If the absolute difference between the input and the retained value is strictly
  less than 0.08, the output is the retained value itself and the gate is unchanged; if
  it is 0.08 or more, the input is the output and the new retained value.
\<close>

theorem hysteresis_gate:
  "(flt (fabsf (fsub v (shown_g s))) threshold \<longrightarrow> hysteresis v s = (shown_g s, s)) \<and>
   (fge (fabsf (fsub v (shown_g s))) threshold \<longrightarrow>
      hysteresis v s = (v, s\<lparr>shown_g := v\<rparr>))"
  by (auto simp: hysteresis_def Let_def dest: flt_not_fge)

theorem hysteresis_gate_witness:
  "flt (fabsf (fsub (float_lit 1865 100) (shown_g busy_state))) threshold \<and>
   hysteresis (float_lit 1865 100) busy_state = (float_lit 186 10, busy_state) \<and>
   fge (fabsf (fsub (float_lit 187 10) (shown_g busy_state))) threshold \<and>
   hysteresis (float_lit 187 10) busy_state =
     (float_lit 187 10, busy_state\<lparr>shown_g := float_lit 187 10\<rparr>)"
  using hysteresis_gate [of "float_lit 1865 100" busy_state]
    hysteresis_gate [of "float_lit 187 10" busy_state]
  by (simp add: busy_state_def knobs lit_bits ops)

subsection \<open>C7: the zero clamp\<close>

text \<open>
  C7.  For all \<open>g\<close> with \<open>-0.3 < g \<le> 0\<close> the output is exactly 0, for all \<open>g\<close> with
  \<open>0 \<le> g < 0.2\<close> the output is exactly 0, and for all \<open>g\<close> with \<open>g \<le> -0.3\<close> or \<open>g \<ge> 0.2\<close>
  the output is \<open>g\<close> unchanged.  ``Exactly 0'' is \<^verbatim>\<open>== 0\<close>: a negative zero goes through
  unchanged, and is equal to 0.
\<close>

theorem zero_clamp_bands:
  "(flt (fneg zClampNeg) g \<and> fle g fzero \<longrightarrow> feq (varZeroClamp g) fzero) \<and>
   (fle fzero g \<and> flt g zClampPos \<longrightarrow> feq (varZeroClamp g) fzero) \<and>
   (fle g (fneg zClampNeg) \<or> fge g zClampPos \<longrightarrow> varZeroClamp g = g)"
  using pos_zClampNeg pos_zClampPos
  by (auto simp: varZeroClamp_def flt_def fle_def fgt_def fge_def feq_def
      f_int_fabsf isnan_fabsf f_int_fneg isnan_fneg f_int_fzero isnan_fzero)

text \<open>At -0.1 and 0.1, and at the two borders -0.3 and 0.2.\<close>

theorem zero_clamp_bands_witness:
  "flt (fneg zClampNeg) (fneg (float_lit 1 10)) \<and> fle (fneg (float_lit 1 10)) fzero \<and>
   feq (varZeroClamp (fneg (float_lit 1 10))) fzero \<and>
   fle fzero (float_lit 1 10) \<and> flt (float_lit 1 10) zClampPos \<and>
   feq (varZeroClamp (float_lit 1 10)) fzero \<and>
   fle (fneg (float_lit 3 10)) (fneg zClampNeg) \<and>
   varZeroClamp (fneg (float_lit 3 10)) = fneg (float_lit 3 10) \<and>
   fge (float_lit 2 10) zClampPos \<and>
   varZeroClamp (float_lit 2 10) = float_lit 2 10"
  using zero_clamp_bands [of "fneg (float_lit 1 10)"] zero_clamp_bands [of "float_lit 1 10"]
    zero_clamp_bands [of "fneg (float_lit 3 10)"] zero_clamp_bands [of "float_lit 2 10"]
  by (simp add: knobs lit_bits ops)

subsection \<open>C9: the tare and the hysteresis gate\<close>

text \<open>
  C9.  A tare event leaves the retained value \<^verbatim>\<open>shown_g\<close> of the hysteresis gate as it was
  before the event, whatever the state.
\<close>

theorem tare_keeps_shown_g:
  assumes "pin 0 = LOW" "pin 1 = LOW" "pin j = HIGH"
  shows "loop_tare pin s = Some (True, tare_reset s) \<and> shown_g (tare_reset s) = shown_g s"
  using loop_tare_pressed [OF assms] by (simp add: tare_reset_def)

theorem tare_keeps_shown_g_witness:
  "pressed_until 3 0 = LOW \<and> pressed_until 3 1 = LOW \<and> pressed_until 3 3 = HIGH \<and>
   loop_tare (pressed_until 3) busy_state = Some (True, tare_reset busy_state) \<and>
   shown_g (tare_reset busy_state) = float_lit 186 10"
  using tare_keeps_shown_g [of "pressed_until 3" 3 busy_state]
  by (simp add: pressed_until_def busy_state_def)

subsection \<open>C10: the filter state is the displayed weight\<close>

text \<open>
  C10.  At the end of every pass the stored \<^verbatim>\<open>gFilt\<close> is the stable weight that the pass
  shows: the output of the adaptive filter sent through the hysteresis gate, the zero
  clamp and the quantizer.  So the next pass (one without a tare, which would store 0
  first) computes its error term, and its filter step, against that quantized value.
\<close>

theorem filter_state_is_displayed:
  assumes "loop i s = Some (s', d)"
  shows "gFilt s' = d_gFilt d \<and>
         (\<exists>t s1. loop_tare (button i) s = Some (t, s1) \<and>
            d_gFilt d =
              quantize (varZeroClamp (fst (hysteresis (loop_ema (d_grams d) (gFilt s1)) s1)))) \<and>
         (\<forall>i2 s2 d2.
            (button i2 0 = HIGH \<or> button i2 1 = HIGH) \<and> loop i2 s' = Some (s2, d2) \<longrightarrow>
            d_gFilt d2 =
              quantize (varZeroClamp (fst (hysteresis (loop_ema (d_grams d2) (d_gFilt d)) s'))))"
proof -
  from assms obtain t s1 where tare: "loop_tare (button i) s = Some (t, s1)"
    by (rule loop_Some_tare)
  from loop_unfold [OF tare] assms
  have 1: "gFilt s' = d_gFilt d"
    and 2: "d_gFilt d = gFilt (loop_filter (d_grams d) s1)"
    by (auto simp: loop_timer_frame loop_flow_frame)
  have 3: "d_gFilt d2 =
       quantize (varZeroClamp (fst (hysteresis (loop_ema (d_grams d2) (d_gFilt d)) s')))"
    if "button i2 0 = HIGH \<or> button i2 1 = HIGH" and "loop i2 s' = Some (s2, d2)" for i2 s2 d2
  proof -
    from loop_tare_not_pressed [OF that(1)]
    have "loop_tare (button i2) s' = Some (False, s')" .
    from loop_unfold [OF this] that(2)
    have "d_gFilt d2 = gFilt (loop_filter (d_grams d2) s')" by auto
    then show ?thesis by (simp add: loop_filter_gFilt 1)
  qed
  show ?thesis
    using 1 2 3 tare by (auto simp: loop_filter_gFilt)
qed

text \<open>The cup of 10 g, then a reading of 10.3 g: the second pass filters against the
  10.0 that the first one showed, and shows 10.2.\<close>

theorem filter_state_is_displayed_witness:
  "loop placed_tick init_state =
     Some (placed_state,
           \<lparr>d_val = 7340, d_grams = float_lit 10 1, d_gFilt = float_lit 10 1,
            d_time = 0x3A83126F, tared = False\<rparr>) \<and>
   gFilt placed_state = float_lit 10 1 \<and>
   button pouring_tick 0 = HIGH \<and>
   loop pouring_tick placed_state =
     Some (\<lparr>gFilt = float_lit 102 10, prevGFilt = float_lit 102 10, running = True,
             time = 0x3D27EF9E, startOnce = True, shown_g = 0x4122E148, tStart = 1001,
             flowStopTimer = 1040\<rparr>,
           \<lparr>d_val = 7560, d_grams = float_lit 103 10, d_gFilt = float_lit 102 10,
            d_time = 0x3D27EF9E, tared = False\<rparr>) \<and>
   float_lit 102 10 =
     quantize (varZeroClamp (fst (hysteresis
        (loop_ema (float_lit 103 10) (float_lit 10 1)) placed_state)))"
proof -
  note th = filter_state_is_displayed [OF placed_run]
  have b: "button pouring_tick 0 = HIGH"
    by (simp add: pouring_tick_def released_def)
  from th have "gFilt placed_state = float_lit 10 1" by simp
  moreover
  from th [THEN conjunct2, THEN conjunct2, rule_format, OF conjI, OF disjI1, OF b pouring_run]
  have "float_lit 102 10 =
     quantize (varZeroClamp (fst (hysteresis
        (loop_ema (float_lit 103 10) (float_lit 10 1)) placed_state)))"
    by simp
  ultimately show ?thesis using placed_run pouring_run b by simp
qed

end
